theory Spec2Isabelle
  imports
    Complex_Main
    "HOL-Library.Char_ord"
    "HOL-Library.List_Lexorder"
    "HOL-Library.Product_Lexorder"
    "HOL-Library.Sublist"
begin

section \<open>Tables as the dashboards see them\<close>

text \<open>
  The three scripts are sequences of dataframe calls. A parsed table is modelled by its
  column names and its rows; a cell of a parsed table is missing (the dataframe's NaN: an
  empty field of the CSV), a number (a field of a column read as numeric) or text (a
  field of a column read as text). Numbers are finite and are rationals, as every finite
  float is; sums are taken exactly, without binary rounding, and infinities are not
  modelled. Strings are byte strings, ordered lexicographically by byte as the UTF-8
  encodings of Python strings are.

  The \<open>Platform\<close> column is text, as section 6 of the specification declares it.
\<close>

datatype cell = NaN | Num rat | Text string

record raw_row =
  Platform_raw :: "string option"
  Year_raw :: cell
  Global_Sales_raw :: cell
  others_raw :: "(string \<times> cell) list"

record dataframe =
  columns :: "string list"
  rows :: "raw_row list"

text \<open>A cleaned row of \<open>stream_app.py\<close>: the output of \<open>clean_df\<close>.\<close>

record row =
  Platform :: string
  Year :: int
  Global_Sales :: rat
  others :: "(string \<times> cell) list"

text \<open>A loaded row of \<open>app_2.py\<close>: the output of \<open>load_data\<close>, which keeps rows
  without a platform.\<close>

record row2 =
  Platform2 :: "string option"
  Year2 :: int
  Global_Sales2 :: rat
  others2 :: "(string \<times> cell) list"


section \<open>Numeric coercion: \<open>pd.to_numeric(..., errors="coerce")\<close>\<close>

text \<open>
  Text is read as a decimal literal: blanks around it are skipped, then an optional sign,
  digits with an optional fraction (at least one digit in all) and an optional exponent.
  Anything else fails, and with \<open>errors="coerce"\<close> a failure is NaN, here \<open>None\<close>.
  The words for infinities are outside this grammar.
\<close>

definition is_digit :: "char \<Rightarrow> bool" where
  "is_digit c = (48 \<le> (of_char c :: nat) \<and> (of_char c :: nat) \<le> 57)"

definition digit_val :: "char \<Rightarrow> int" where
  "digit_val c = of_char c - 48"

definition int_of_digits :: "string \<Rightarrow> int" where
  "int_of_digits ds = foldl (\<lambda>n c. 10 * n + digit_val c) 0 ds"

definition is_space :: "char \<Rightarrow> bool" where
  "is_space c = ((of_char c :: nat) = 32 \<or> (9 \<le> (of_char c :: nat) \<and> (of_char c :: nat) \<le> 13))"

definition strip :: "string \<Rightarrow> string" where
  "strip s = rev (dropWhile is_space (rev (dropWhile is_space s)))"

definition split_sign :: "string \<Rightarrow> bool \<times> string" where
  "split_sign s =
     (case s of
        [] \<Rightarrow> (False, [])
      | c # cs \<Rightarrow>
          if c = CHR ''-'' then (True, cs)
          else if c = CHR ''+'' then (False, cs)
          else (False, s))"

definition parse_exponent :: "string \<Rightarrow> int option" where
  "parse_exponent s =
     (case s of
        [] \<Rightarrow> Some 0
      | c # cs \<Rightarrow>
          if c = CHR ''e'' \<or> c = CHR ''E'' then
            (case split_sign cs of (neg, ds) \<Rightarrow>
               if ds \<noteq> [] \<and> list_all is_digit ds
               then Some (if neg then - int_of_digits ds else int_of_digits ds)
               else None)
          else None)"

definition scale10 :: "int \<Rightarrow> rat \<Rightarrow> rat" where
  "scale10 e m = (if 0 \<le> e then m * 10 ^ nat e else m / 10 ^ nat (- e))"

definition parse_float :: "string \<Rightarrow> rat option" where
  "parse_float s =
     (case split_sign (strip s) of (neg, body) \<Rightarrow>
        let ip = takeWhile is_digit body;
            r1 = dropWhile is_digit body;
            fp = (case r1 of [] \<Rightarrow> [] | c # cs \<Rightarrow>
                    if c = CHR ''.'' then takeWhile is_digit cs else []);
            r2 = (case r1 of [] \<Rightarrow> [] | c # cs \<Rightarrow>
                    if c = CHR ''.'' then dropWhile is_digit cs else r1)
        in if ip @ fp = [] then None
           else (case parse_exponent r2 of
                   None \<Rightarrow> None
                 | Some e \<Rightarrow>
                     let m = scale10 e (of_int (int_of_digits (ip @ fp)) / 10 ^ length fp)
                     in Some (if neg then - m else m)))"

definition to_numeric :: "cell \<Rightarrow> rat option" where
  "to_numeric c = (case c of NaN \<Rightarrow> None | Num q \<Rightarrow> Some q | Text s \<Rightarrow> parse_float s)"

text \<open>\<open>.fillna(0.0)\<close> on a coerced cell.\<close>

definition fillna0 :: "rat option \<Rightarrow> rat" where
  "fillna0 v = (case v of None \<Rightarrow> 0 | Some q \<Rightarrow> q)"

text \<open>\<open>.astype(int)\<close> on a float that is not NaN: the fractional part is discarded.
  Years are taken to fit the 64-bit integer the dataframe stores them in.\<close>

definition astype_int :: "rat \<Rightarrow> int" where
  "astype_int q = (if 0 \<le> q then \<lfloor>q\<rfloor> else - \<lfloor>- q\<rfloor>)"


section \<open>\<open>stream_app.py\<close>\<close>

subsection \<open>Loading and the schema check\<close>

text \<open>
  \<open>pd.read_csv\<close> is the dataframe library's reader: it is a parameter, a function of
  the requested encoding (\<open>None\<close> when the call names none) and of the bytes, that
  returns a table or raises. \<open>load_csv\<close> tries the encodings of its loop in order and
  returns at the first table; after the loop it calls the reader without an encoding, and
  an exception of that last call is not caught.
\<close>

type_synonym 'e reader = "string option \<Rightarrow> string \<Rightarrow> 'e + dataframe"

fun try_encodings :: "'e reader \<Rightarrow> string list \<Rightarrow> string \<Rightarrow> dataframe option" where
  "try_encodings rd [] raw = None"
| "try_encodings rd (enc # encs) raw =
     (case rd (Some enc) raw of
        Inr df \<Rightarrow> Some df
      | Inl _ \<Rightarrow> try_encodings rd encs raw)"

definition load_csv :: "'e reader \<Rightarrow> string \<Rightarrow> 'e + dataframe" where
  "load_csv rd raw =
     (case try_encodings rd [''utf-8'', ''latin-1''] raw of
        Some df \<Rightarrow> Inr df
      | None \<Rightarrow> rd None raw)"

definition ensure_columns :: "dataframe \<Rightarrow> string set" where
  "ensure_columns df = {''Platform'', ''Year'', ''Global_Sales''} - set (columns df)"

subsection \<open>Cleaning\<close>

text \<open>
  \<open>clean_df\<close> works column by column, and every step acts on each row by itself:
  \<open>Year\<close> is coerced, rows with a NaN in \<open>Year\<close>, \<open>Platform\<close> or
  \<open>Global_Sales\<close> are dropped (the sales column is still as parsed at that point),
  \<open>Year\<close> is cast to an integer, and then each sales column that is present is coerced
  with NaN replaced by \<open>0.0\<close>.
\<close>

definition coerce_sales :: "cell \<Rightarrow> rat" where
  "coerce_sales c = fillna0 (to_numeric c)"

definition regional_cols :: "string list" where
  "regional_cols = [''NA_Sales'', ''EU_Sales'', ''JP_Sales'', ''Other_Sales'']"

definition clean_others :: "(string \<times> cell) list \<Rightarrow> (string \<times> cell) list" where
  "clean_others cs =
     map (\<lambda>(c, v). if c \<in> set regional_cols then (c, Num (coerce_sales v)) else (c, v)) cs"

definition clean_row :: "raw_row \<Rightarrow> row option" where
  "clean_row r =
     (case to_numeric (Year_raw r) of
        None \<Rightarrow> None
      | Some y \<Rightarrow>
          (case Platform_raw r of
             None \<Rightarrow> None
           | Some p \<Rightarrow>
               if Global_Sales_raw r = NaN then None
               else Some \<lparr>Platform = p, Year = astype_int y,
                          Global_Sales = coerce_sales (Global_Sales_raw r),
                          others = clean_others (others_raw r)\<rparr>))"

definition clean_df :: "raw_row list \<Rightarrow> row list" where
  "clean_df df = List.map_filter clean_row df"

subsection \<open>Grouping and sorting\<close>

text \<open>
  \<open>groupby(keys, as_index=False)[measure].sum()\<close>: one row for each key that occurs,
  in ascending order of the key (the library sorts group keys unless told otherwise),
  holding the sum of the measure over the rows with that key.
\<close>

definition groupby_sum :: "('r \<Rightarrow> 'k::linorder) \<Rightarrow> ('r \<Rightarrow> rat) \<Rightarrow> 'r list \<Rightarrow> ('k \<times> rat) list" where
  "groupby_sum key val df =
     map (\<lambda>k. (k, sum_list (map val (filter (\<lambda>r. key r = k) df))))
       (sort (remdups (map key df)))"

text \<open>
  \<open>sort_values(col)\<close> is \<open>sort_key\<close>. \<open>sort_values(col, ascending=False)\<close>
  reverses the rows, sorts them ascending and reverses the result. The library's default
  sorting kind does not promise an order for equal keys; the model takes the sort that
  keeps them as they stand.
\<close>

definition sort_values_desc :: "('a \<Rightarrow> 'k::linorder) \<Rightarrow> 'a list \<Rightarrow> 'a list" where
  "sort_values_desc key xs = rev (sort_key key (rev xs))"

definition platform_totals :: "row list \<Rightarrow> (string \<times> rat) list" where
  "platform_totals df = sort_values_desc snd (groupby_sum Platform Global_Sales df)"

definition top_platforms :: "row list \<Rightarrow> nat \<Rightarrow> string list" where
  "top_platforms df n = take n (map fst (platform_totals df))"

definition top_plat :: "row list \<Rightarrow> (string \<times> rat) list" where
  "top_plat df = take 12 (platform_totals df)"

subsection \<open>Filter and aggregations\<close>

definition fdf :: "int \<Rightarrow> int \<Rightarrow> string list \<Rightarrow> row list \<Rightarrow> row list" where
  "fdf y0 y1 selected_platforms df =
     (let f = filter (\<lambda>r. y0 \<le> Year r \<and> Year r \<le> y1) df
      in if selected_platforms \<noteq> []
         then filter (\<lambda>r. Platform r \<in> set selected_platforms) f
         else f)"

definition by_year :: "row list \<Rightarrow> (int \<times> rat) list" where
  "by_year f = sort_key fst (groupby_sum Year Global_Sales f)"

definition by_year_platform :: "row list \<Rightarrow> ((int \<times> string) \<times> rat) list" where
  "by_year_platform f = sort_key fst (groupby_sum (\<lambda>r. (Year r, Platform r)) Global_Sales f)"

subsection \<open>The script\<close>

text \<open>
  One run of the script, from the upload to the charts. The widget values of the run are
  an input. Each \<open>st.stop()\<close> ends the run with the message shown before it.
\<close>

record widgets =
  year_range :: "int \<times> int"
  selected_platforms :: "string list"

record views =
  v_by_year :: "(int \<times> rat) list"
  v_by_year_platform :: "((int \<times> string) \<times> rat) list"
  v_top_plat :: "(string \<times> rat) list"

datatype 'e outcome =
    Info
  | Uncaught 'e
  | Error_missing "string list" "string list"
  | Warning_clean
  | Warning_filter
  | Charts views

definition stream_app :: "'e reader \<Rightarrow> string option \<Rightarrow> widgets \<Rightarrow> 'e outcome" where
  "stream_app rd uploaded w =
     (case uploaded of
        None \<Rightarrow> Info
      | Some raw \<Rightarrow>
          (case load_csv rd raw of
             Inl e \<Rightarrow> Uncaught e
           | Inr df0 \<Rightarrow>
               if ensure_columns df0 \<noteq> {}
               then Error_missing (sorted_list_of_set (ensure_columns df0)) (columns df0)
               else
                 let df = clean_df (rows df0) in
                 if df = [] then Warning_clean
                 else
                   let f = fdf (fst (year_range w)) (snd (year_range w)) (selected_platforms w) df in
                   if f = [] then Warning_filter
                   else Charts \<lparr>v_by_year = by_year f,
                                 v_by_year_platform = by_year_platform f,
                                 v_top_plat = top_plat f\<rparr>))"


section \<open>\<open>app_2.py\<close>\<close>

text \<open>
  \<open>load_data\<close> reads the file, raises \<open>ValueError\<close> when a required column is
  missing, drops the rows whose \<open>Year\<close> does not coerce and zero-fills
  \<open>Global_Sales\<close>. It keeps rows without a platform.
\<close>

datatype 'e load_error = Read_failure 'e | ValueError "string list"

definition load_row :: "raw_row \<Rightarrow> row2 option" where
  "load_row r =
     (case to_numeric (Year_raw r) of
        None \<Rightarrow> None
      | Some y \<Rightarrow>
          Some \<lparr>Platform2 = Platform_raw r, Year2 = astype_int y,
                Global_Sales2 = fillna0 (to_numeric (Global_Sales_raw r)),
                others2 = others_raw r\<rparr>)"

definition load_data :: "'e reader \<Rightarrow> string \<Rightarrow> 'e load_error + row2 list" where
  "load_data rd file =
     (case rd None file of
        Inl e \<Rightarrow> Inl (Read_failure e)
      | Inr df \<Rightarrow>
          if ensure_columns df \<noteq> {}
          then Inl (ValueError (sorted_list_of_set (ensure_columns df)))
          else Inr (List.map_filter load_row (rows df)))"

text \<open>
  The platform options are the platforms that are present, so \<open>isin\<close> selects no row
  without a platform: the filtered rows are rows with a platform.
\<close>

definition filtered_row :: "string list \<Rightarrow> int list \<Rightarrow> row2 \<Rightarrow> row option" where
  "filtered_row sel_platforms sel_years r =
     (case Platform2 r of
        None \<Rightarrow> None
      | Some p \<Rightarrow>
          if p \<in> set sel_platforms \<and> Year2 r \<in> set sel_years
          then Some \<lparr>Platform = p, Year = Year2 r, Global_Sales = Global_Sales2 r,
                     others = others2 r\<rparr>
          else None)"

definition filtered :: "string list \<Rightarrow> int list \<Rightarrow> row2 list \<Rightarrow> row list" where
  "filtered sel_platforms sel_years df = List.map_filter (filtered_row sel_platforms sel_years) df"

definition agg :: "row list \<Rightarrow> ((string \<times> int) \<times> rat) list" where
  "agg f = groupby_sum (\<lambda>r. (Platform r, Year r)) Global_Sales f"






definition ranking :: "row list \<Rightarrow> (string \<times> rat) list" where
  "ranking f = sort_values_desc snd (groupby_sum (\<lambda>e. fst (fst e)) snd (agg f))"


section \<open>Sample tables\<close>

text \<open>The scenario of section 8 of the specification, as parsed and as cleaned.\<close>

definition wii_2006 :: raw_row where
  "wii_2006 = \<lparr>Platform_raw = Some ''Wii'', Year_raw = Text ''2006'',
               Global_Sales_raw = Num (8274 / 100), others_raw = []\<rparr>"

definition nes_1985 :: raw_row where
  "nes_1985 = \<lparr>Platform_raw = Some ''NES'', Year_raw = Text ''1985'',
               Global_Sales_raw = Num (4024 / 100), others_raw = []\<rparr>"

definition wii_2009 :: raw_row where
  "wii_2009 = \<lparr>Platform_raw = Some ''Wii'', Year_raw = Text ''2009'',
               Global_Sales_raw = Num 15, others_raw = []\<rparr>"

definition scenario :: "raw_row list" where
  "scenario = [wii_2006, nes_1985, wii_2009]"

definition scenario_rows :: "row list" where
  "scenario_rows =
     [\<lparr>Platform = ''Wii'', Year = 2006, Global_Sales = 8274 / 100, others = []\<rparr>,
      \<lparr>Platform = ''NES'', Year = 1985, Global_Sales = 4024 / 100, others = []\<rparr>,
      \<lparr>Platform = ''Wii'', Year = 2009, Global_Sales = 15, others = []\<rparr>]"






text \<open>Readers: one that decodes Latin-1 only, and one that returns a table none of whose
  years is a number.\<close>

definition latin1_only :: "string reader" where
  "latin1_only enc raw =
     (if enc = Some ''latin-1''
      then Inr \<lparr>columns = [''Platform'', ''Year'', ''Global_Sales''], rows = [wii_2006]\<rparr>
      else Inl ''UnicodeDecodeError'')"




text \<open>A reader that returns the scenario, and the widgets set to its whole range.\<close>

definition scenario_reader :: "string reader" where
  "scenario_reader enc raw =
     Inr \<lparr>columns = [''Platform'', ''Year'', ''Global_Sales''], rows = scenario\<rparr>"

definition scenario_widgets :: widgets where
  "scenario_widgets = \<lparr>year_range = (1985, 2009), selected_platforms = [''Wii'', ''NES'']\<rparr>"


section \<open>Ties by first appearance, as the specification words them\<close>




section \<open>Properties of coercion and cleaning\<close>


















section \<open>Properties of grouping, sorting and pivoting\<close>

lemma groupby_sum_keys: "map fst (groupby_sum key val df) = sort (remdups (map key df))"
  by (simp add: groupby_sum_def comp_def)

lemma groupby_sum_sorted: "sorted (map fst (groupby_sum key val df))"
  by (simp add: groupby_sum_keys)

lemma groupby_sum_distinct: "distinct (map fst (groupby_sum key val df))"
  by (simp add: groupby_sum_keys)

lemma groupby_sum_strict: "sorted_wrt (<) (map fst (groupby_sum key val df))"
  by (simp add: strict_sorted_iff groupby_sum_sorted groupby_sum_distinct)

lemma groupby_sum_key_set: "set (map fst (groupby_sum key val df)) = key ` set df"
  by (simp add: groupby_sum_keys)

lemma groupby_sum_total:
  "(k, v) \<in> set (groupby_sum key val df) \<Longrightarrow> v = sum_list (map val (filter (\<lambda>r. key r = k) df))"
  by (auto simp: groupby_sum_def)


lemma sort_key_groupby_sum: "sort_key fst (groupby_sum key val df) = groupby_sum key val df"
  by (rule sort_key_id_if_sorted) (rule groupby_sum_sorted)

lemma by_year_eq: "by_year f = groupby_sum Year Global_Sales f"
  by (simp add: by_year_def sort_key_groupby_sum)

lemma by_year_platform_eq:
  "by_year_platform f = groupby_sum (\<lambda>r. (Year r, Platform r)) Global_Sales f"
  by (simp add: by_year_platform_def sort_key_groupby_sum)


























section \<open>The claims\<close>

subsection \<open>Cleaning\<close>







subsection \<open>Loading\<close>

text \<open>
  Claim C5. \<open>load_csv\<close> reads the bytes as UTF-8 first and returns that table when the
  read succeeds; when it fails, it reads them as Latin-1 and returns that table when the
  read succeeds; when both fail, its result is that of a last read with no encoding named.
  It fails exactly when all three reads fail, with the failure of the last one.
\<close>

theorem C5_load_csv:
  fixes rd :: "'e reader"
  shows
  "(rd (Some ''utf-8'') raw = Inr df \<longrightarrow> load_csv rd raw = Inr df)
   \<and> (rd (Some ''utf-8'') raw = Inl ea \<and> rd (Some ''latin-1'') raw = Inr df
        \<longrightarrow> load_csv rd raw = Inr df)
   \<and> (rd (Some ''utf-8'') raw = Inl ea \<and> rd (Some ''latin-1'') raw = Inl eb
        \<longrightarrow> load_csv rd raw = rd None raw)
   \<and> (load_csv rd raw = Inl e \<longleftrightarrow>
        (\<exists>a. rd (Some ''utf-8'') raw = Inl a) \<and> (\<exists>b. rd (Some ''latin-1'') raw = Inl b)
        \<and> rd None raw = Inl e)"
  by (auto simp: load_csv_def split: sum.splits option.splits)

theorem C5_load_csv_witness:
  "latin1_only (Some ''utf-8'') ''x'' = Inl ''UnicodeDecodeError''
   \<and> latin1_only (Some ''latin-1'') ''x'' =
       Inr \<lparr>columns = [''Platform'', ''Year'', ''Global_Sales''], rows = [wii_2006]\<rparr>
   \<and> load_csv latin1_only ''x'' =
       Inr \<lparr>columns = [''Platform'', ''Year'', ''Global_Sales''], rows = [wii_2006]\<rparr>"
proof -
  have h1: "latin1_only (Some ''utf-8'') ''x'' = Inl ''UnicodeDecodeError''"
    by (simp add: latin1_only_def)
  have h2: "latin1_only (Some ''latin-1'') ''x'' =
       Inr \<lparr>columns = [''Platform'', ''Year'', ''Global_Sales''], rows = [wii_2006]\<rparr>"
    by (simp add: latin1_only_def)
  have "load_csv latin1_only ''x'' =
       Inr \<lparr>columns = [''Platform'', ''Year'', ''Global_Sales''], rows = [wii_2006]\<rparr>"
    using C5_load_csv [where rd = latin1_only and raw = "''x''"
        and df = "\<lparr>columns = [''Platform'', ''Year'', ''Global_Sales''], rows = [wii_2006]\<rparr>"
        and ea = "''UnicodeDecodeError''"] h1 h2
    by blast
  then show ?thesis using h1 h2 by simp
qed

subsection \<open>Empty results\<close>



subsection \<open>Filtering\<close>

text \<open>
  Claim C2. The filter keeps exactly the rows whose year lies between the two bounds,
  bounds included, and whose platform is selected when some platform is selected; with
  no platform selected it keeps every row within the bounds. The rows kept stand in the
  order they had.
\<close>

theorem C2_filter:
  "fdf y0 y1 sel df =
     filter (\<lambda>r. y0 \<le> Year r \<and> Year r \<le> y1 \<and> (sel = [] \<or> Platform r \<in> set sel)) df
   \<and> fdf y0 y1 [] df = filter (\<lambda>r. y0 \<le> Year r \<and> Year r \<le> y1) df
   \<and> subseq (fdf y0 y1 sel df) df"
proof -
  have eq: "fdf y0 y1 sel df =
     filter (\<lambda>r. y0 \<le> Year r \<and> Year r \<le> y1 \<and> (sel = [] \<or> Platform r \<in> set sel)) df"
    by (cases "sel = []") (simp_all add: fdf_def Let_def conj_commute conj_left_commute)
  have "fdf y0 y1 [] df = filter (\<lambda>r. y0 \<le> Year r \<and> Year r \<le> y1) df"
    by (simp add: fdf_def)
  moreover have "subseq (fdf y0 y1 sel df) df"
    unfolding eq by (rule subseq_filter_left)
  ultimately show ?thesis using eq by simp
qed

theorem C2_filter_witness:
  "fdf 2006 2006 [] scenario_rows =
     [\<lparr>Platform = ''Wii'', Year = 2006, Global_Sales = 8274 / 100, others = []\<rparr>]
   \<and> fdf 1980 2006 [''NES''] scenario_rows =
     [\<lparr>Platform = ''NES'', Year = 1985, Global_Sales = 4024 / 100, others = []\<rparr>]"
  using C2_filter [of 2006 2006 "[]" scenario_rows]
    C2_filter [of 1980 2006 "[''NES'']" scenario_rows]
  by (simp add: scenario_rows_def)

subsection \<open>Aggregation\<close>

text \<open>
  Claim C6. The aggregation by year has one row for each year that occurs in the
  filtered table and for no other year, in strictly ascending order of the year, and the
  row holds the sum of the measure over the rows of that year. The aggregation by year and
  platform has one row for each pair that occurs and for no other pair, ascending by year
  and, within a year, by platform name, with the sum over the rows of the pair. A group
  without rows therefore has no row, while a group whose rows sum to zero has one.
\<close>

theorem C6_aggregate:
  "sorted_wrt (<) (map fst (by_year f))
   \<and> set (map fst (by_year f)) = Year ` set f
   \<and> (\<forall>(y, v) \<in> set (by_year f).
         v = sum_list (map Global_Sales (filter (\<lambda>r. Year r = y) f)))
   \<and> sorted_wrt (\<lambda>a b. fst a < fst b \<or> (fst a = fst b \<and> snd a < snd b))
        (map fst (by_year_platform f))
   \<and> set (map fst (by_year_platform f)) = (\<lambda>r. (Year r, Platform r)) ` set f
   \<and> (\<forall>((y, p), v) \<in> set (by_year_platform f).
         v = sum_list (map Global_Sales (filter (\<lambda>r. Year r = y \<and> Platform r = p) f)))"
proof -
  have lex: "(\<lambda>a b :: int \<times> string. fst a < fst b \<or> (fst a = fst b \<and> snd a < snd b)) = (<)"
    by (intro ext) (auto simp: less_prod_def)
  have s2: "sorted_wrt (\<lambda>a b. fst a < fst b \<or> (fst a = fst b \<and> snd a < snd b))
        (map fst (by_year_platform f))"
    unfolding lex by_year_platform_eq by (rule groupby_sum_strict)
  have t1: "\<forall>(y, v) \<in> set (by_year f).
         v = sum_list (map Global_Sales (filter (\<lambda>r. Year r = y) f))"
    unfolding by_year_eq using groupby_sum_total [of _ _ Year Global_Sales f] by auto
  have t2: "\<forall>((y, p), v) \<in> set (by_year_platform f).
         v = sum_list (map Global_Sales (filter (\<lambda>r. Year r = y \<and> Platform r = p) f))"
    unfolding by_year_platform_eq
    using groupby_sum_total [of _ _ "\<lambda>r. (Year r, Platform r)" Global_Sales f] by auto
  show ?thesis
    using s2 t1 t2 groupby_sum_strict [of Year Global_Sales f]
      groupby_sum_key_set [of Year Global_Sales f]
      groupby_sum_key_set [of "\<lambda>r. (Year r, Platform r)" Global_Sales f]
    unfolding by_year_eq by_year_platform_eq by blast
qed

theorem C6_aggregate_witness:
  "by_year scenario_rows = [(1985, 4024 / 100), (2006, 8274 / 100), (2009, 15)]
   \<and> (2006, 8274 / 100) \<in> set (by_year scenario_rows)
   \<and> (8274 / 100 :: rat) = sum_list (map Global_Sales (filter (\<lambda>r. Year r = 2006) scenario_rows))
   \<and> by_year_platform scenario_rows =
       [((1985, ''NES''), 4024 / 100), ((2006, ''Wii''), 8274 / 100), ((2009, ''Wii''), 15)]
   \<and> ((2009, ''Wii''), 15) \<in> set (by_year_platform scenario_rows)
   \<and> (15 :: rat) =
       sum_list (map Global_Sales (filter (\<lambda>r. Year r = 2009 \<and> Platform r = ''Wii'') scenario_rows))
   \<and> by_year [\<lparr>Platform = ''Wii'', Year = 2006, Global_Sales = 0, others = []\<rparr>] = [(2006, 0)]"
proof -
  have e1: "by_year scenario_rows = [(1985, 4024 / 100), (2006, 8274 / 100), (2009, 15)]"
    by code_simp
  have e2: "by_year_platform scenario_rows =
       [((1985, ''NES''), 4024 / 100), ((2006, ''Wii''), 8274 / 100), ((2009, ''Wii''), 15)]"
    by code_simp
  have e3: "by_year [\<lparr>Platform = ''Wii'', Year = 2006, Global_Sales = 0, others = []\<rparr>] = [(2006, 0)]"
    by code_simp
  have m1: "(2006, 8274 / 100) \<in> set (by_year scenario_rows)"
    unfolding e1 by simp
  have m2: "((2009, ''Wii''), 15) \<in> set (by_year_platform scenario_rows)"
    unfolding e2 by simp
  have a: "(8274 / 100 :: rat) = sum_list (map Global_Sales (filter (\<lambda>r. Year r = 2006) scenario_rows))"
    using C6_aggregate [of scenario_rows] m1 by fast
  have b: "(15 :: rat) =
       sum_list (map Global_Sales (filter (\<lambda>r. Year r = 2009 \<and> Platform r = ''Wii'') scenario_rows))"
    using C6_aggregate [of scenario_rows] m2 by fast
  show ?thesis
    using e1 e2 e3 m1 m2 a b by blast
qed

subsection \<open>Ranking\<close>




subsection \<open>Pivot\<close>



subsection \<open>The scenario of the specification\<close>

text \<open>
  Claim C8. The three rows \<open>("Wii", "2006", 82.74)\<close>, \<open>("NES", "1985", 40.24)\<close>,
  \<open>("Wii", "2009", 15.0)\<close> clean to three rows with the years 2006, 1985, 2009. With the
  whole range of years and both platforms selected the filter keeps them all; the
  aggregation by year is 40.24 for 1985, 82.74 for 2006 and 15.0 for 2009; the ranking is
  \<open>Wii\<close> with 97.74, then \<open>NES\<close> with 40.24.
\<close>

theorem C8_scenario:
  "clean_df scenario = scenario_rows
   \<and> length (clean_df scenario) = 3
   \<and> map Year (clean_df scenario) = [2006, 1985, 2009]
   \<and> fdf 1985 2009 [''Wii'', ''NES''] (clean_df scenario) = clean_df scenario
   \<and> by_year (clean_df scenario) = [(1985, 4024 / 100), (2006, 8274 / 100), (2009, 15)]
   \<and> platform_totals (clean_df scenario) = [(''Wii'', 9774 / 100), (''NES'', 4024 / 100)]
   \<and> top_platforms (clean_df scenario) 8 = [''Wii'', ''NES'']
   \<and> top_plat (clean_df scenario) = [(''Wii'', 9774 / 100), (''NES'', 4024 / 100)]
   \<and> ranking (clean_df scenario) = [(''Wii'', 9774 / 100), (''NES'', 4024 / 100)]
   \<and> stream_app scenario_reader (Some ''csv'') scenario_widgets =
       Charts \<lparr>v_by_year = [(1985, 4024 / 100), (2006, 8274 / 100), (2009, 15)],
               v_by_year_platform =
                 [((1985, ''NES''), 4024 / 100), ((2006, ''Wii''), 8274 / 100),
                  ((2009, ''Wii''), 15)],
               v_top_plat = [(''Wii'', 9774 / 100), (''NES'', 4024 / 100)]\<rparr>"
  by code_simp

end
